theory Spec2Isabelle
  imports Complex_Main "HOL-Library.Multiset" "HOL-Library.Log_Nat"
begin

section \<open>Doubles\<close>

text \<open>
  A C++ \<^verbatim>\<open>double\<close> is an IEEE 754 binary64 number: a finite value, an infinity or
  not a number. A finite double is given by its value, a real number that binary64
  represents; the two zeros are one value here (the operations below give the same values
  on either). Arithmetic rounds to the nearest double, ties to the even significand.
\<close>

datatype double = Finite real | PlusInf | MinusInf | NaN

text \<open>The exponent \<open>e\<close> of a real that is not zero: \<open>2 ^ e \<le> \<bar>x\<bar> < 2 ^ (e + 1)\<close>.\<close>

definition binade :: "real \<Rightarrow> int" where
  "binade x = (if x = 0 then 0 else \<lfloor>log 2 \<bar>x\<bar>\<rfloor>)"

text \<open>The nearest integer, the even one of the two when they are equally near.\<close>

definition round_even :: "real \<Rightarrow> int" where
  "round_even q =
     (let f = \<lfloor>q\<rfloor>; r = q - of_int f
      in if r < 1/2 then f else if 1/2 < r then f + 1 else if even f then f else f + 1)"

text \<open>
  Rounding a real to a double: 53 bits of significand, so the doubles around \<open>x\<close> are
  \<open>2 ^ (e - 52)\<close> apart, with \<open>e\<close> the exponent of \<open>x\<close> and at least \<open>- 1022\<close> (below
  \<open>2 ^ - 1022\<close> the doubles are \<open>2 ^ - 1074\<close> apart); a result of magnitude \<open>2 ^ 1024\<close>
  is an infinity.
\<close>

definition round_double :: "real \<Rightarrow> double" where
  "round_double x =
     (let e = max (binade x) (- 1022);
          ulp = 2 powi (e - 52);
          r = of_int (round_even (x / ulp)) * ulp
      in if 2 ^ 1024 \<le> r then PlusInf
         else if r \<le> - (2 ^ 1024) then MinusInf
         else Finite r)"

text \<open>Unary minus, \<^verbatim>\<open>+\<close>, \<^verbatim>\<open>-\<close> and \<^verbatim>\<open><\<close> on doubles.\<close>

fun dneg :: "double \<Rightarrow> double" where
  "dneg (Finite x) = Finite (- x)"
| "dneg PlusInf = MinusInf"
| "dneg MinusInf = PlusInf"
| "dneg NaN = NaN"

fun dadd :: "double \<Rightarrow> double \<Rightarrow> double" where
  "dadd (Finite x) (Finite y) = round_double (x + y)"
| "dadd NaN b = NaN"
| "dadd a NaN = NaN"
| "dadd PlusInf MinusInf = NaN"
| "dadd MinusInf PlusInf = NaN"
| "dadd PlusInf b = PlusInf"
| "dadd a PlusInf = PlusInf"
| "dadd MinusInf b = MinusInf"
| "dadd a MinusInf = MinusInf"

definition dsub :: "double \<Rightarrow> double \<Rightarrow> double" where
  "dsub a b = dadd a (dneg b)"

fun dless :: "double \<Rightarrow> double \<Rightarrow> bool" where
  "dless (Finite x) (Finite y) = (x < y)"
| "dless NaN b = False"
| "dless a NaN = False"
| "dless a MinusInf = False"
| "dless PlusInf b = False"
| "dless MinusInf b = True"
| "dless a PlusInf = True"

text \<open>
  \<^verbatim>\<open>std::min(a, b)\<close> is \<^verbatim>\<open>(b < a) ? b : a\<close> and \<^verbatim>\<open>std::max(a, b)\<close> is
  \<^verbatim>\<open>(a < b) ? b : a\<close>.
\<close>

definition std_min :: "double \<Rightarrow> double \<Rightarrow> double" where
  "std_min a b = (if dless b a then b else a)"

definition std_max :: "double \<Rightarrow> double \<Rightarrow> double" where
  "std_max a b = (if dless a b then b else a)"

section \<open>Cartesian impedance controller: data\<close>

text \<open>
  The torque rate saturation is computed on the doubles of the previous section: an
  \<^verbatim>\<open>Eigen::Matrix<double, 7, 1>\<close> is a list of seven doubles.

  The gains, their filter and the orientation error are computed on real numbers in place
  of doubles (exact arithmetic, no rounding, no NaN), with \<^verbatim>\<open>sqrt\<close> as \<^const>\<open>sqrt\<close>.
  A 6x6 matrix is a function from row and column index to the coefficient; only the
  indices below six belong to the matrix of the source.
\<close>

type_synonym vec7 = "double list"

type_synonym mat6 = "nat \<Rightarrow> nat \<Rightarrow> real"

definition setIdentity :: mat6 where
  "setIdentity = (\<lambda>i j. if i = j then 1 else 0)"

definition setZero :: mat6 where
  "setZero = (\<lambda>i j. 0)"

text \<open>The assignment \<^verbatim>\<open>M(i,j) = v\<close>.\<close>

definition set_coeff :: "mat6 \<Rightarrow> nat \<Rightarrow> nat \<Rightarrow> real \<Rightarrow> mat6" where
  "set_coeff M i j v = M(i := (M i)(j := v))"

text \<open>The expression \<^verbatim>\<open>a * T + (1.0 - a) * M\<close> on matrices, coefficient by coefficient.\<close>

definition filter_mat :: "real \<Rightarrow> mat6 \<Rightarrow> mat6 \<Rightarrow> mat6" where
  "filter_mat a T M = (\<lambda>i j. a * T i j + (1 - a) * M i j)"

section \<open>Torque rate saturation\<close>

text \<open>
  \<^verbatim>\<open>saturateTorqueRate\<close> (cartesian_impedance_controller.cpp, lines 213-222). The member
  \<^verbatim>\<open>delta_tau_max_\<close> is declared in the header, which is not part of the sources at hand:
  it is the first parameter. The loop \<^verbatim>\<open>for (size_t i = 0; i < 7; i++)\<close> is the recursion
  of \<open>saturate_loop\<close> on the index, and \<^verbatim>\<open>tau_d_saturated{}\<close> starts as the zero vector.
\<close>

function saturate_loop :: "double \<Rightarrow> vec7 \<Rightarrow> vec7 \<Rightarrow> nat \<Rightarrow> vec7 \<Rightarrow> vec7" where
  "saturate_loop delta_tau_max tau_d_calculated tau_J_d i tau_d_saturated =
     (if i < 7 then
        (let difference = dsub (tau_d_calculated ! i) (tau_J_d ! i) in
         saturate_loop delta_tau_max tau_d_calculated tau_J_d (i + 1)
           (tau_d_saturated[i := dadd (tau_J_d ! i)
               (std_max (std_min difference delta_tau_max) (dneg delta_tau_max))]))
      else tau_d_saturated)"
  by pat_completeness auto
termination
  by (relation "measure (\<lambda>(d, c, p, i, s). 7 - i)") auto

declare saturate_loop.simps [simp del]

definition saturateTorqueRate :: "double \<Rightarrow> vec7 \<Rightarrow> vec7 \<Rightarrow> vec7" where
  "saturateTorqueRate delta_tau_max tau_d_calculated tau_J_d =
     saturate_loop delta_tau_max tau_d_calculated tau_J_d 0 (replicate 7 (Finite 0))"

section \<open>Stiffness and damping targets\<close>

text \<open>
  The message \<^verbatim>\<open>franka_core_msgs::CartImpedanceStiffness\<close>, with the fields the callback
  reads. A field \<^verbatim>\<open>f\<close> of the message is \<open>msg_f\<close> here (\<^verbatim>\<open>by\<close> is a keyword and
  \<^verbatim>\<open>x\<close> a variable name).
\<close>

record CartImpedanceStiffness =
  use_flag :: int
  msg_x :: real
  msg_y :: real
  msg_z :: real
  msg_xrot :: real
  msg_yrot :: real
  msg_zrot :: real
  msg_bx :: real
  msg_by :: real
  msg_bz :: real
  msg_bxrot :: real
  msg_byrot :: real
  msg_bzrot :: real
  msg_xx :: real
  msg_xy :: real
  msg_xz :: real
  msg_yx :: real
  msg_yy :: real
  msg_yz :: real
  msg_zx :: real
  msg_zy :: real
  msg_zz :: real
  msg_xxrot :: real
  msg_xyrot :: real
  msg_xzrot :: real
  msg_yxrot :: real
  msg_yyrot :: real
  msg_yzrot :: real
  msg_zxrot :: real
  msg_zyrot :: real
  msg_zzrot :: real
  msg_bxx :: real
  msg_bxy :: real
  msg_bxz :: real
  msg_byx :: real
  msg_byy :: real
  msg_byz :: real
  msg_bzx :: real
  msg_bzy :: real
  msg_bzz :: real
  msg_bxxrot :: real
  msg_bxyrot :: real
  msg_bxzrot :: real
  msg_byxrot :: real
  msg_byyrot :: real
  msg_byzrot :: real
  msg_bzxrot :: real
  msg_bzyrot :: real
  msg_bzzrot :: real

text \<open>
  The members of \<^verbatim>\<open>CartesianImpedanceController\<close> that hold the gains: the targets the
  callbacks write and the filtered values the control law applies (without the trailing
  underscore of the source).
\<close>

record impedance_gains =
  cartesian_stiffness_target :: mat6
  cartesian_damping_target :: mat6
  nullspace_stiffness_target :: real
  cartesian_stiffness :: mat6
  cartesian_damping :: mat6
  nullspace_stiffness :: real

text \<open>A run of assignments \<^verbatim>\<open>M(i,j) = v;\<close> in the order they are written.\<close>

fun assign_coeffs :: "(nat \<times> nat \<times> real) list \<Rightarrow> mat6 \<Rightarrow> mat6" where
  "assign_coeffs [] M = M"
| "assign_coeffs ((i, j, v) # as) M = assign_coeffs as (set_coeff M i j v)"

text \<open>
  The gains part of \<^verbatim>\<open>CartesianImpedanceController::init\<close> (lines 42-47 and 97-112):
  initialisation fails unless six stiffness gains are given. \<^verbatim>\<open>nullspace_stiffness_\<close> is
  not assigned by \<^verbatim>\<open>init\<close>; it keeps the initial value of its declaration in the header,
  which is the second parameter here.
\<close>

definition impedance_init :: "real list option \<Rightarrow> real \<Rightarrow> impedance_gains option" where
  "impedance_init stiffness_gains_param nullspace_stiffness_decl =
     (case stiffness_gains_param of
        None \<Rightarrow> None
      | Some stiffness_gains \<Rightarrow>
          if length stiffness_gains \<noteq> 6 then None
          else Some \<lparr>
            cartesian_stiffness_target =
              assign_coeffs (map (\<lambda>i. (i, i, stiffness_gains ! i)) [0..<6]) setIdentity,
            cartesian_damping_target =
              assign_coeffs (map (\<lambda>i. (i, i, 2 * sqrt (stiffness_gains ! i))) [0..<6])
                setIdentity,
            nullspace_stiffness_target = 0,
            cartesian_stiffness = setZero,
            cartesian_damping = setZero,
            nullspace_stiffness = nullspace_stiffness_decl \<rparr>)"

text \<open>\<^verbatim>\<open>stiffnessParamCallback\<close> (lines 224-317).\<close>

definition stiffnessParamCallback ::
    "CartImpedanceStiffness \<Rightarrow> impedance_gains \<Rightarrow> impedance_gains" where
  "stiffnessParamCallback msg s =
     (if use_flag msg = 0 then
        s\<lparr>cartesian_stiffness_target :=
            assign_coeffs
             [(0, 0, msg_x msg),
              (1, 1, msg_y msg),
              (2, 2, msg_z msg),
              (3, 3, msg_xrot msg),
              (4, 4, msg_yrot msg),
              (5, 5, msg_zrot msg)] setIdentity,
          cartesian_damping_target :=
            (if msg_bx msg = - 1 then
               assign_coeffs
                [(0, 0, 0.5 * sqrt (msg_x msg)),
                 (1, 1, 0.5 * sqrt (msg_y msg)),
                 (2, 2, 0.5 * sqrt (msg_z msg)),
                 (3, 3, 0.5 * sqrt (msg_xrot msg)),
                 (4, 4, 0.5 * sqrt (msg_yrot msg)),
                 (5, 5, 0.5 * sqrt (msg_zrot msg))] setIdentity
             else
               assign_coeffs
                [(0, 0, msg_bx msg),
                 (1, 1, msg_by msg),
                 (2, 2, msg_bz msg),
                 (3, 3, msg_bxrot msg),
                 (4, 4, msg_byrot msg),
                 (5, 5, msg_bzrot msg)] setIdentity)\<rparr>
      else
        s\<lparr>cartesian_stiffness_target :=
            assign_coeffs
             [(0, 0, msg_xx msg),
              (0, 1, msg_xy msg),
              (0, 2, msg_xz msg),
              (1, 0, msg_yx msg),
              (1, 1, msg_yy msg),
              (1, 2, msg_yz msg),
              (2, 0, msg_zx msg),
              (2, 1, msg_zy msg),
              (2, 2, msg_zz msg),
              (3, 3, msg_xxrot msg),
              (3, 4, msg_xyrot msg),
              (3, 5, msg_xzrot msg),
              (4, 3, msg_yxrot msg),
              (4, 4, msg_yyrot msg),
              (4, 5, msg_yzrot msg),
              (5, 3, msg_zxrot msg),
              (5, 4, msg_zyrot msg),
              (5, 5, msg_zzrot msg)] setIdentity,
          cartesian_damping_target :=
            assign_coeffs
             [(0, 0, msg_bxx msg),
              (0, 1, msg_bxy msg),
              (0, 2, msg_bxz msg),
              (1, 0, msg_byx msg),
              (1, 1, msg_byy msg),
              (1, 2, msg_byz msg),
              (2, 0, msg_bzx msg),
              (2, 1, msg_bzy msg),
              (2, 2, msg_bzz msg),
              (3, 3, msg_bxxrot msg),
              (3, 4, msg_bxyrot msg),
              (3, 5, msg_bxzrot msg),
              (4, 3, msg_byxrot msg),
              (4, 4, msg_byyrot msg),
              (4, 5, msg_byzrot msg),
              (5, 3, msg_bzxrot msg),
              (5, 4, msg_bzyrot msg),
              (5, 5, msg_bzzrot msg)] setIdentity\<rparr>)"

text \<open>
  The lines of \<^verbatim>\<open>update\<close> that write the gains (lines 202-204): one step of the filter
  \<^verbatim>\<open>current = a * target + (1 - a) * current\<close>. The coefficient \<^verbatim>\<open>filter_params_\<close> is
  declared in the header and is the first parameter here. The rest of \<^verbatim>\<open>update\<close> reads
  the gains and writes none of them.
\<close>

definition update_gains :: "real \<Rightarrow> impedance_gains \<Rightarrow> impedance_gains" where
  "update_gains filter_params s =
     s\<lparr>cartesian_stiffness :=
         filter_mat filter_params (cartesian_stiffness_target s) (cartesian_stiffness s),
       cartesian_damping :=
         filter_mat filter_params (cartesian_damping_target s) (cartesian_damping s),
       nullspace_stiffness :=
         filter_params * nullspace_stiffness_target s
           + (1 - filter_params) * nullspace_stiffness s\<rparr>"

text \<open>What happens to the gains over time: stiffness messages and control cycles.\<close>

datatype gains_event = Stiffness CartImpedanceStiffness | Cycle

fun gains_step :: "real \<Rightarrow> gains_event \<Rightarrow> impedance_gains \<Rightarrow> impedance_gains" where
  "gains_step a (Stiffness msg) s = stiffnessParamCallback msg s"
| "gains_step a Cycle s = update_gains a s"

fun gains_run :: "real \<Rightarrow> gains_event list \<Rightarrow> impedance_gains \<Rightarrow> impedance_gains" where
  "gains_run a [] s = s"
| "gains_run a (e # es) s = gains_run a es (gains_step a e s)"

fun cycles :: "gains_event list \<Rightarrow> nat" where
  "cycles [] = 0"
| "cycles (Stiffness msg # es) = cycles es"
| "cycles (Cycle # es) = Suc (cycles es)"

text \<open>A message with every field zero, to build concrete messages from.\<close>

definition zero_msg :: CartImpedanceStiffness where
  "zero_msg = \<lparr>use_flag = 0, msg_x = 0, msg_y = 0, msg_z = 0, msg_xrot = 0, msg_yrot = 0, msg_zrot = 0,
     msg_bx = 0, msg_by = 0, msg_bz = 0, msg_bxrot = 0, msg_byrot = 0, msg_bzrot = 0,
     msg_xx = 0, msg_xy = 0, msg_xz = 0, msg_yx = 0, msg_yy = 0, msg_yz = 0, msg_zx =
     0, msg_zy = 0, msg_zz = 0, msg_xxrot = 0, msg_xyrot = 0, msg_xzrot = 0,
     msg_yxrot = 0, msg_yyrot = 0, msg_yzrot = 0, msg_zxrot = 0, msg_zyrot = 0,
     msg_zzrot = 0, msg_bxx = 0, msg_bxy = 0, msg_bxz = 0, msg_byx = 0, msg_byy = 0,
     msg_byz = 0, msg_bzx = 0, msg_bzy = 0, msg_bzz = 0, msg_bxxrot = 0, msg_bxyrot =
     0, msg_bxzrot = 0, msg_byxrot = 0, msg_byyrot = 0, msg_byzrot = 0, msg_bzxrot =
     0, msg_bzyrot = 0, msg_bzzrot = 0\<rparr>"

section \<open>Orientation error\<close>










section \<open>Controller arbiter\<close>

text \<open>
  \<^verbatim>\<open>MotionControllerInterface\<close> (motion_controller_interface.cpp). Reading a
  \<^verbatim>\<open>std::vector\<close> with \<^verbatim>\<open>operator[]\<close> beyond its size is undefined behaviour in C++:
  the model makes it a fault, and the functions that read vectors return a fault or a
  result.
\<close>

datatype fault = OutOfBounds

definition vec_at :: "'a list \<Rightarrow> nat \<Rightarrow> fault + 'a" where
  "vec_at xs i = (if i < length xs then Inr (xs ! i) else Inl OutOfBounds)"

text \<open>
  The mode constants of \<^verbatim>\<open>franka_core_msgs::JointCommand\<close>. The message definition is not
  part of the sources at hand, so the four codes are parameters. They are labels of one
  \<^verbatim>\<open>switch\<close> statement, which C++ compiles only when they are distinct.
\<close>

record mode_codes =
  POSITION_MODE :: int
  VELOCITY_MODE :: int
  TORQUE_MODE :: int
  IMPEDANCE_MODE :: int

definition distinct_codes :: "mode_codes \<Rightarrow> bool" where
  "distinct_codes c =
     distinct [POSITION_MODE c, IMPEDANCE_MODE c, TORQUE_MODE c, VELOCITY_MODE c]"

definition recognized :: "mode_codes \<Rightarrow> int \<Rightarrow> bool" where
  "recognized c m =
     (m = POSITION_MODE c \<or> m = VELOCITY_MODE c \<or> m = TORQUE_MODE c \<or> m = IMPEDANCE_MODE c)"

text \<open>
  The parameters \<^verbatim>\<open>init\<close> reads from the parameter server under
  \<^verbatim>\<open>/controllers_config/\<close>; \<open>None\<close> is a parameter that is not set.
\<close>

record arbiter_params =
  param_joint_position_controller :: "string option"
  param_joint_velocity_controller :: "string option"
  param_joint_torque_controller :: "string option"
  param_joint_impedance_controller :: "string option"
  param_cartesian_pose_controller :: "string option"
  param_cartesian_impedance_controller :: "string option"
  param_cartesian_force_controller :: "string option"
  param_trajectory_controller :: "string option"
  param_default_controller :: "string option"
  param_command_timeout :: "double option"

text \<open>
  The members of the class (without the trailing underscore of the source). A
  \<^verbatim>\<open>ros::Time\<close> and a \<^verbatim>\<open>ros::Duration\<close> are real numbers of seconds; the two boxes hold
  a pointer that is null until it is set, an \<open>option\<close> here. The constructor
  \<^verbatim>\<open>ros::Duration(double)\<close> belongs to the ROS library: the functions that call it take
  it as the parameter \<open>Duration\<close>, from a double of seconds to a duration.
  \<open>switch_requests\<close> is not a
  member of the class: it records the calls of
  \<^verbatim>\<open>controller_manager_->switchController(start, stop, BEST_EFFORT)\<close> in order, each
  with its start and stop list.
\<close>

record arbiter =
  current_mode :: int
  joint_position_controller_name :: string
  joint_velocity_controller_name :: string
  joint_torque_controller_name :: string
  joint_impedance_controller_name :: string
  cartesian_pose_controller_name :: string
  cartesian_impedance_controller_name :: string
  cartesian_force_controller_name :: string
  trajectory_controller_name :: string
  default_controller_name :: string
  current_controller_name :: string
  all_controllers :: "string list"
  controller_name_to_mode_map :: "string \<rightharpoonup> int"
  box_timeout_length :: "real option"
  box_cmd_timeout :: "real option"
  switch_requests :: "(string list \<times> string list) list"

text \<open>\<^verbatim>\<open>if (!nh.getParam(key, var)) var = fallback;\<close>\<close>

definition getParam_or :: "'a option \<Rightarrow> 'a \<Rightarrow> 'a" where
  "getParam_or p fallback = (case p of Some v \<Rightarrow> v | None \<Rightarrow> fallback)"

text \<open>
  The loop of \<^verbatim>\<open>init\<close> that looks for the default controller among the controllers
  (lines 78-85); its result only decides whether an error is logged (lines 96-98).
\<close>

fun default_defined :: "string \<Rightarrow> string list \<Rightarrow> bool" where
  "default_defined d [] = False"
| "default_defined d (n # ns) = (if n = d then True else default_defined d ns)"

text \<open>
  \<^verbatim>\<open>init\<close> (lines 34-117), on a freshly constructed object: the map is empty and no
  command time is stored. The literal \<^verbatim>\<open>0.2\<close> is the double nearest to it.
  Subscriptions, the timer and log output are left out.
\<close>

definition arbiter_init ::
    "mode_codes \<Rightarrow> (double \<Rightarrow> real) \<Rightarrow> arbiter_params \<Rightarrow> arbiter" where
  "arbiter_init c Duration p =
     (let jp = getParam_or (param_joint_position_controller p) ''joint_position_controller'';
          jv = getParam_or (param_joint_velocity_controller p) ''joint_velocity_controller'';
          jt = getParam_or (param_joint_torque_controller p) ''joint_torque_controller'';
          ji = getParam_or (param_joint_impedance_controller p) ''joint_impedance_controller'';
          cp = getParam_or (param_cartesian_pose_controller p) ''cartesian_pose_controller'';
          ci = getParam_or (param_cartesian_impedance_controller p)
                 ''cartesian_impedance_controller'';
          cf = getParam_or (param_cartesian_force_controller p) ''cartesian_force_controller'';
          tr = getParam_or (param_trajectory_controller p)
                 ''position_joint_trajectory_controller'';
          df = getParam_or (param_default_controller p)
                 ''position_joint_trajectory_controller'';
          command_timeout_default =
            getParam_or (param_command_timeout p) (round_double 0.2)
      in \<lparr>current_mode = - 1,
          joint_position_controller_name = jp,
          joint_velocity_controller_name = jv,
          joint_torque_controller_name = jt,
          joint_impedance_controller_name = ji,
          cartesian_pose_controller_name = cp,
          cartesian_impedance_controller_name = ci,
          cartesian_force_controller_name = cf,
          trajectory_controller_name = tr,
          default_controller_name = df,
          current_controller_name = df,
          all_controllers = [jp, jv, jt, ji, cp, ci, cf, tr],
          controller_name_to_mode_map =
            Map.empty(jp \<mapsto> POSITION_MODE c, jt \<mapsto> TORQUE_MODE c, ji \<mapsto> IMPEDANCE_MODE c,
              jv \<mapsto> VELOCITY_MODE c, cp \<mapsto> - 1, cf \<mapsto> - 1, ci \<mapsto> - 1, tr \<mapsto> - 1),
          box_timeout_length =
            Some (Duration (std_min (Finite 1) (std_max (Finite 0) command_timeout_default))),
          box_cmd_timeout = None,
          switch_requests = []\<rparr>)"

text \<open>
  The log line after a switch (lines 156-163 and 236-243) reads \<^verbatim>\<open>start_controllers[0]\<close>
  and \<^verbatim>\<open>stop_controllers[0]\<close> to \<^verbatim>\<open>stop_controllers[6]\<close>.
\<close>

definition log_controllers :: "string list \<Rightarrow> string list \<Rightarrow> fault + unit" where
  "log_controllers start_controllers stop_controllers =
     (if 0 < length start_controllers \<and> 6 < length stop_controllers then Inr ()
      else Inl OutOfBounds)"

text \<open>
  \<^verbatim>\<open>controller_name_to_mode_map_[name]\<close> as a read: \<^verbatim>\<open>std::map::operator[]\<close> inserts
  the value 0 for a key that is absent.
\<close>

definition map_index :: "(string \<rightharpoonup> int) \<Rightarrow> string \<Rightarrow> int \<times> (string \<rightharpoonup> int)" where
  "map_index m k = (case m k of Some v \<Rightarrow> (v, m) | None \<Rightarrow> (0, m(k \<mapsto> 0)))"

text \<open>
  The loop of \<^verbatim>\<open>switchToDefaultController\<close> (lines 142-147) over \<^verbatim>\<open>all_controllers_\<close>,
  with the two vectors it appends to.
\<close>

fun default_loop ::
    "string \<Rightarrow> string list \<Rightarrow> string list \<Rightarrow> string list \<Rightarrow> string list \<times> string list" where
  "default_loop d [] start_controllers stop_controllers = (start_controllers, stop_controllers)"
| "default_loop d (n # ns) start_controllers stop_controllers =
     (if n = d then default_loop d ns (start_controllers @ [n]) stop_controllers
      else default_loop d ns start_controllers (stop_controllers @ [n]))"

text \<open>
  \<^verbatim>\<open>switchToDefaultController\<close> (lines 137-165). The first parameter is the answer of the
  controller manager to the switch request.
\<close>

definition switchToDefaultController :: "bool \<Rightarrow> arbiter \<Rightarrow> fault + bool \<times> arbiter" where
  "switchToDefaultController switched s =
     (case default_loop (default_controller_name s) (all_controllers s) [] [] of
        (start_controllers, stop_controllers) \<Rightarrow>
          let s1 = s\<lparr>switch_requests :=
                switch_requests s @ [(start_controllers, stop_controllers)]\<rparr>
          in if \<not> switched then Inr (False, s1)
             else
               (case vec_at start_controllers 0 of
                  Inl f \<Rightarrow> Inl f
                | Inr name \<Rightarrow>
                    (case map_index (controller_name_to_mode_map s1) name of
                       (mode, m) \<Rightarrow>
                         (case log_controllers start_controllers stop_controllers of
                            Inl f \<Rightarrow> Inl f
                          | Inr _ \<Rightarrow>
                              Inr (True, s1\<lparr>current_controller_name := name,
                                          controller_name_to_mode_map := m,
                                          current_mode := mode\<rparr>)))))"

text \<open>\<^verbatim>\<open>commandTimeoutCheck\<close> (lines 119-135); \<open>now\<close> is \<^verbatim>\<open>ros::Time::now()\<close>.\<close>

definition commandTimeoutCheck :: "bool \<Rightarrow> real \<Rightarrow> arbiter \<Rightarrow> fault + arbiter" where
  "commandTimeoutCheck switched now s =
     (let command_timeout =
        (case box_cmd_timeout s of
           None \<Rightarrow> False
         | Some cmd_msg_time \<Rightarrow>
             (case box_timeout_length s of
                None \<Rightarrow> False
              | Some timeout_length \<Rightarrow> now - cmd_msg_time > timeout_length))
      in if command_timeout \<and> current_controller_name s \<noteq> default_controller_name s then
           (case switchToDefaultController switched s of
              Inl f \<Rightarrow> Inl f
            | Inr (ok, s') \<Rightarrow> Inr s')
         else Inr s)"

text \<open>\<^verbatim>\<open>jointCommandTimeoutCallback\<close> (lines 168-173).\<close>

definition jointCommandTimeoutCallback ::
    "(double \<Rightarrow> real) \<Rightarrow> double \<Rightarrow> arbiter \<Rightarrow> arbiter" where
  "jointCommandTimeoutCallback Duration data s =
     s\<lparr>box_timeout_length :=
         Some (Duration (std_min (Finite 1) (std_max (Finite 0) data)))\<rparr>"

text \<open>
  The \<^verbatim>\<open>switch\<close> statement of \<^verbatim>\<open>switchControllers\<close> (lines 181-227): the start and
  stop vectors of a mode, in the order of the cases, and \<open>None\<close> for the default case.
\<close>

definition switch_case :: "mode_codes \<Rightarrow> arbiter \<Rightarrow> int \<Rightarrow> (string list \<times> string list) option" where
  "switch_case c s control_mode =
     (if control_mode = POSITION_MODE c then
        Some ([joint_position_controller_name s],
              [joint_impedance_controller_name s, joint_torque_controller_name s,
               joint_velocity_controller_name s, cartesian_pose_controller_name s,
               cartesian_impedance_controller_name s, cartesian_force_controller_name s,
               trajectory_controller_name s])
      else if control_mode = IMPEDANCE_MODE c then
        Some ([joint_impedance_controller_name s],
              [joint_position_controller_name s, joint_torque_controller_name s,
               joint_velocity_controller_name s, cartesian_pose_controller_name s,
               cartesian_impedance_controller_name s, cartesian_force_controller_name s,
               trajectory_controller_name s])
      else if control_mode = TORQUE_MODE c then
        Some ([joint_torque_controller_name s],
              [joint_position_controller_name s, joint_impedance_controller_name s,
               joint_velocity_controller_name s, cartesian_pose_controller_name s,
               cartesian_impedance_controller_name s, cartesian_force_controller_name s,
               trajectory_controller_name s])
      else if control_mode = VELOCITY_MODE c then
        Some ([joint_velocity_controller_name s],
              [joint_position_controller_name s, joint_impedance_controller_name s,
               joint_torque_controller_name s, cartesian_pose_controller_name s,
               cartesian_impedance_controller_name s, cartesian_force_controller_name s,
               trajectory_controller_name s])
      else None)"

text \<open>
  \<^verbatim>\<open>switchControllers\<close> (lines 175-246). The second parameter is the answer of the
  controller manager to the switch request, if one is made.
\<close>

definition switchControllers ::
    "mode_codes \<Rightarrow> bool \<Rightarrow> int \<Rightarrow> arbiter \<Rightarrow> fault + bool \<times> arbiter" where
  "switchControllers c switched control_mode s =
     (if current_mode s \<noteq> control_mode then
        (case switch_case c s control_mode of
           None \<Rightarrow> Inr (False, s)
         | Some (start_controllers, stop_controllers) \<Rightarrow>
             let s1 = s\<lparr>switch_requests :=
                   switch_requests s @ [(start_controllers, stop_controllers)]\<rparr>
             in if \<not> switched then Inr (False, s1)
                else
                  (case vec_at start_controllers 0 of
                     Inl f \<Rightarrow> Inl f
                   | Inr name \<Rightarrow>
                       (case log_controllers start_controllers stop_controllers of
                          Inl f \<Rightarrow> Inl f
                        | Inr _ \<Rightarrow>
                            Inr (True, s1\<lparr>current_mode := control_mode,
                                        current_controller_name := name\<rparr>))))
      else Inr (True, s))"

text \<open>\<^verbatim>\<open>jointCommandCallback\<close> (lines 248-255) for a message with the given mode.\<close>

definition jointCommandCallback ::
    "mode_codes \<Rightarrow> bool \<Rightarrow> real \<Rightarrow> int \<Rightarrow> arbiter \<Rightarrow> fault + arbiter" where
  "jointCommandCallback c switched now mode s =
     (case switchControllers c switched mode s of
        Inl f \<Rightarrow> Inl f
      | Inr (ok, s') \<Rightarrow> Inr (if ok then s'\<lparr>box_cmd_timeout := Some now\<rparr> else s'))"

text \<open>
  The callbacks run one at a time, under the mutex of the class. An event is one callback:
  a tick of the watchdog timer, a timeout message or a command message; a tick and a
  command carry the time and the answer the controller manager would give.
\<close>

datatype arbiter_event =
    Tick real bool
  | TimeoutMsg double
  | CommandMsg real int bool

fun arbiter_step ::
    "mode_codes \<Rightarrow> (double \<Rightarrow> real) \<Rightarrow> arbiter_event \<Rightarrow> arbiter \<Rightarrow> fault + arbiter" where
  "arbiter_step c Duration (Tick now switched) s = commandTimeoutCheck switched now s"
| "arbiter_step c Duration (TimeoutMsg data) s =
     Inr (jointCommandTimeoutCallback Duration data s)"
| "arbiter_step c Duration (CommandMsg now mode switched) s =
     jointCommandCallback c switched now mode s"

fun arbiter_run ::
    "mode_codes \<Rightarrow> (double \<Rightarrow> real) \<Rightarrow> arbiter_event list \<Rightarrow> arbiter \<Rightarrow> fault + arbiter" where
  "arbiter_run c Duration [] s = Inr s"
| "arbiter_run c Duration (e # es) s =
     (case arbiter_step c Duration e s of
        Inl f \<Rightarrow> Inl f
      | Inr s' \<Rightarrow> arbiter_run c Duration es s')"

fun is_command :: "arbiter_event \<Rightarrow> bool" where
  "is_command (CommandMsg now mode switched) = True"
| "is_command e = False"

text \<open>
  The eight controller names in the order \<^verbatim>\<open>init\<close> appends them to
  \<^verbatim>\<open>all_controllers_\<close>.
\<close>

definition configured_controllers :: "arbiter \<Rightarrow> string list" where
  "configured_controllers s =
     [joint_position_controller_name s, joint_velocity_controller_name s,
      joint_torque_controller_name s, joint_impedance_controller_name s,
      cartesian_pose_controller_name s, cartesian_impedance_controller_name s,
      cartesian_force_controller_name s, trajectory_controller_name s]"

text \<open>
  The default controller is configured when it is exactly one of the eight controllers:
  the invariant of the controller set.
\<close>

definition default_configured :: "arbiter \<Rightarrow> bool" where
  "default_configured s =
     (length (all_controllers s) = 8 \<and>
      filter (\<lambda>n. n = default_controller_name s) (all_controllers s)
        = [default_controller_name s])"

text \<open>Concrete inputs for the examples below.\<close>

definition gain4_msg :: CartImpedanceStiffness where
  "gain4_msg = zero_msg\<lparr>msg_x := 4, msg_y := 4, msg_z := 4, msg_xrot := 4, msg_yrot := 4,
     msg_zrot := 4, msg_bx := - 1\<rparr>"

definition idle_gains :: impedance_gains where
  "idle_gains = \<lparr>cartesian_stiffness_target = setIdentity,
     cartesian_damping_target = setIdentity, nullspace_stiffness_target = 0,
     cartesian_stiffness = setZero, cartesian_damping = setZero, nullspace_stiffness = 0\<rparr>"

text \<open>
  Two torque vectors of doubles: at joint 0 the previous torque is \<open>10 ^ 16 + 2\<close>, at
  joint 1 the computed torque is \<open>2 ^ - 60\<close> and the previous torque is 1.
\<close>

definition calc_example :: vec7 where
  "calc_example =
     [Finite 0, Finite (1 / 2 ^ 60), Finite 5, Finite (1/2), Finite 0, Finite 0, Finite 2]"

definition prev_example :: vec7 where
  "prev_example =
     [Finite 10000000000000002, Finite 1, Finite 0, Finite 0, Finite 0, Finite 0, Finite 2]"

definition six_gains :: "real list" where
  "six_gains = [4, 4, 4, 4, 4, 4]"


text \<open>
  Example mode codes; a conversion of seconds to a duration that rounds to the nearest
  nanosecond; no parameter set, which gives the names \<^verbatim>\<open>init\<close> falls back to; a
  default controller that is none of the eight; and a position controller with the name
  of the trajectory controller, which is the default.
\<close>

definition nanoseconds :: "double \<Rightarrow> real" where
  "nanoseconds d =
     (case d of Finite x \<Rightarrow> of_int \<lfloor>x * 10 ^ 9 + 1/2\<rfloor> / 10 ^ 9 | _ \<Rightarrow> 0)"

definition example_codes :: mode_codes where
  "example_codes = \<lparr>POSITION_MODE = 1, VELOCITY_MODE = 2, TORQUE_MODE = 3, IMPEDANCE_MODE = 4\<rparr>"

definition no_params :: arbiter_params where
  "no_params = \<lparr>param_joint_position_controller = None,
     param_joint_velocity_controller = None, param_joint_torque_controller = None,
     param_joint_impedance_controller = None, param_cartesian_pose_controller = None,
     param_cartesian_impedance_controller = None, param_cartesian_force_controller = None,
     param_trajectory_controller = None, param_default_controller = None,
     param_command_timeout = None\<rparr>"

definition stray_default_params :: arbiter_params where
  "stray_default_params = no_params\<lparr>param_default_controller := Some ''effort_controller''\<rparr>"

definition twin_default_params :: arbiter_params where
  "twin_default_params =
     no_params\<lparr>param_joint_position_controller :=
       Some ''position_joint_trajectory_controller''\<rparr>"

definition default_arbiter :: arbiter where
  "default_arbiter = arbiter_init example_codes nanoseconds no_params"

text \<open>The default arbiter after a torque command at time 0 that the controller manager served.\<close>

definition torque_active :: arbiter where
  "torque_active = default_arbiter
     \<lparr>switch_requests :=
        [([''joint_torque_controller''],
          [''joint_position_controller'', ''joint_impedance_controller'',
           ''joint_velocity_controller'', ''cartesian_pose_controller'',
           ''cartesian_impedance_controller'', ''cartesian_force_controller'',
           ''position_joint_trajectory_controller''])],
      current_mode := 3,
      current_controller_name := ''joint_torque_controller'',
      box_cmd_timeout := Some 0\<rparr>"

definition stray_arbiter :: arbiter where
  "stray_arbiter = arbiter_init example_codes nanoseconds stray_default_params"

definition twin_arbiter :: arbiter where
  "twin_arbiter = arbiter_init example_codes nanoseconds twin_default_params"

text \<open>Both after a torque command at time 0 that the controller manager served.\<close>

definition stray_torque_active :: arbiter where
  "stray_torque_active = stray_arbiter
     \<lparr>switch_requests :=
        [([''joint_torque_controller''],
          [''joint_position_controller'', ''joint_impedance_controller'',
           ''joint_velocity_controller'', ''cartesian_pose_controller'',
           ''cartesian_impedance_controller'', ''cartesian_force_controller'',
           ''position_joint_trajectory_controller''])],
      current_mode := 3,
      current_controller_name := ''joint_torque_controller'',
      box_cmd_timeout := Some 0\<rparr>"

definition twin_torque_active :: arbiter where
  "twin_torque_active = twin_arbiter
     \<lparr>switch_requests :=
        [([''joint_torque_controller''],
          [''position_joint_trajectory_controller'', ''joint_impedance_controller'',
           ''joint_velocity_controller'', ''cartesian_pose_controller'',
           ''cartesian_impedance_controller'', ''cartesian_force_controller'',
           ''position_joint_trajectory_controller''])],
      current_mode := 3,
      current_controller_name := ''joint_torque_controller'',
      box_cmd_timeout := Some 0\<rparr>"

section \<open>Properties of rounding\<close>

text \<open>
  The exponent is the one that brackets the magnitude between two powers of two, and it
  can be computed from the bit length of an integer.
\<close>

lemma powr_powi: "(2::real) powr (of_int k) = 2 powi k"
  by (simp add: powr_real_of_int power_int_def power_one_over inverse_eq_divide)

lemma binade_iff:
  assumes "x \<noteq> 0"
  shows "binade x = e \<longleftrightarrow> 2 powi e \<le> \<bar>x\<bar> \<and> \<bar>x\<bar> < 2 powi (e + 1)"
proof -
  have "\<lfloor>log 2 \<bar>x\<bar>\<rfloor> = e \<longleftrightarrow>
      2 powr (of_int e) \<le> \<bar>x\<bar> \<and> \<bar>x\<bar> < 2 powr (of_int (e + 1))"
    using floor_log_eq_powr_iff [of "\<bar>x\<bar>" 2 e] assms by simp
  then show ?thesis
    using assms by (simp only: binade_def powr_powi if_False)
qed

lemma binade_eq:
  assumes "2 powi e \<le> \<bar>x\<bar>" and "\<bar>x\<bar> < 2 powi (e + 1)"
  shows "binade x = e"
proof -
  have "(0::real) < 2 powi e" by simp
  with assms(1) have "0 < \<bar>x\<bar>" by linarith
  then have "x \<noteq> 0" by simp
  with assms show ?thesis by (simp add: binade_iff)
qed

lemma binade_ge_1:
  assumes "1 \<le> a"
  shows "binade a = bitlen \<lfloor>a\<rfloor> - 1"
proof (rule binade_eq)
  let ?n = "\<lfloor>a\<rfloor>"
  have n: "0 < ?n" using assms by linarith
  from bitlen_bounds [OF n]
  have lo: "2 ^ nat (bitlen ?n - 1) \<le> ?n" and hi: "?n < 2 ^ nat (bitlen ?n)"
    by simp_all
  have k: "1 \<le> bitlen ?n" using n by (auto simp: bitlen_alt_def)
  have "(2::real) powi (bitlen ?n - 1) = of_int (2 ^ nat (bitlen ?n - 1))"
    using k by (simp add: power_int_def)
  also have "\<dots> \<le> of_int ?n" using lo by (simp only: of_int_le_iff)
  also have "\<dots> \<le> a" by simp
  finally show "2 powi (bitlen ?n - 1) \<le> \<bar>a\<bar>" using assms by simp
  have "?n + 1 \<le> 2 ^ nat (bitlen ?n)" using hi by simp
  then have "of_int (?n + 1) \<le> (of_int (2 ^ nat (bitlen ?n)) :: real)"
    by (simp only: of_int_le_iff)
  moreover have "a < of_int (?n + 1)" by linarith
  ultimately have "a < of_int (2 ^ nat (bitlen ?n))" by linarith
  also have "\<dots> = 2 powi (bitlen ?n - 1 + 1)"
    using k by (simp add: power_int_def)
  finally show "\<bar>a\<bar> < 2 powi (bitlen ?n - 1 + 1)" using assms by simp
qed

lemma binade_lt_1:
  assumes "0 < a" and "a < 1"
  shows "binade a = - bitlen (\<lceil>1 / a\<rceil> - 1)"
proof (rule binade_eq)
  let ?c = "\<lceil>1 / a\<rceil>"
  let ?j = "bitlen (?c - 1)"
  have y: "1 < 1 / a" using assms by simp
  then have c: "0 < ?c - 1" by linarith
  from bitlen_bounds [OF c]
  have lo: "2 ^ nat (?j - 1) \<le> ?c - 1" and hi: "?c - 1 < 2 ^ nat ?j"
    by simp_all
  have j: "1 \<le> ?j" using c by (auto simp: bitlen_alt_def)
  have "?c \<le> 2 ^ nat ?j" using hi by simp
  then have "of_int ?c \<le> (of_int (2 ^ nat ?j) :: real)"
    by (simp only: of_int_le_iff)
  moreover have "1 / a \<le> of_int ?c" by linarith
  moreover have "(of_int (2 ^ nat ?j) :: real) = 2 ^ nat ?j" by simp
  ultimately have "1 / a \<le> 2 ^ nat ?j" by linarith
  then have "1 \<le> 2 ^ nat ?j * a"
    using assms(1) by (simp add: divide_le_eq)
  then have "1 / 2 ^ nat ?j \<le> a"
    by (simp add: divide_le_eq mult.commute)
  moreover have "(2::real) powi (- ?j) = 1 / 2 ^ nat ?j"
    using j by (simp add: power_int_def power_one_over inverse_eq_divide)
  ultimately show "2 powi (- ?j) \<le> \<bar>a\<bar>" using assms by simp
  have "of_int (2 ^ nat (?j - 1)) \<le> (of_int (?c - 1) :: real)"
    using lo by (simp only: of_int_le_iff)
  moreover have "of_int (?c - 1) < 1 / a" by linarith
  moreover have "(of_int (2 ^ nat (?j - 1)) :: real) = 2 ^ nat (?j - 1)" by simp
  ultimately have "2 ^ nat (?j - 1) < 1 / a" by linarith
  then have "2 ^ nat (?j - 1) * a < 1"
    using assms(1) by (simp add: less_divide_eq)
  then have "a < 1 / 2 ^ nat (?j - 1)"
    by (simp add: less_divide_eq mult.commute)
  moreover have "(2::real) powi (- ?j + 1) = 1 / 2 ^ nat (?j - 1)"
  proof (cases "?j = 1")
    case True
    then show ?thesis by simp
  next
    case False
    with j have "- ?j + 1 < 0" by simp
    moreover have "nat (- (- ?j + 1)) = nat (?j - 1)" by simp
    ultimately show ?thesis
      by (simp add: power_int_def power_one_over inverse_eq_divide)
  qed
  ultimately show "\<bar>a\<bar> < 2 powi (- ?j + 1)" using assms by simp
qed

lemma binade_abs: "binade \<bar>x\<bar> = binade x"
  by (simp add: binade_def)

lemma binade_code [code]:
  "binade x =
     (if x = 0 then 0
      else if 1 \<le> \<bar>x\<bar> then bitlen \<lfloor>\<bar>x\<bar>\<rfloor> - 1
      else - bitlen (\<lceil>1 / \<bar>x\<bar>\<rceil> - 1))"
proof (cases "x = 0")
  case True
  then show ?thesis by (simp add: binade_def)
next
  case False
  show ?thesis
  proof (cases "1 \<le> \<bar>x\<bar>")
    case True
    with False binade_ge_1 [OF True] show ?thesis by (simp add: binade_abs)
  next
    case small: False
    with False have "0 < \<bar>x\<bar>" and "\<bar>x\<bar> < 1" by simp_all
    from binade_lt_1 [OF this] False small show ?thesis by (simp add: binade_abs)
  qed
qed

lemma round_double_not_NaN: "round_double x \<noteq> NaN"
  by (simp add: round_double_def Let_def)

lemma round_double_eval:
  assumes "2 powi e \<le> \<bar>x\<bar>" and "\<bar>x\<bar> < 2 powi (e + 1)" and "- 1022 \<le> e"
    and "round_even (x / 2 powi (e - 52)) = k"
    and "of_int k * 2 powi (e - 52) = r"
    and "r < 2 ^ 1024" and "- (2 ^ 1024) < r"
  shows "round_double x = Finite r"
proof -
  have "binade x = e" using assms(1,2) by (rule binade_eq)
  with assms(3) have "max (binade x) (- 1022) = e" by simp
  with assms(4-7) show ?thesis
    by (simp add: round_double_def Let_def)
qed

lemma round_1e16_1: "round_double 10000000000000001 = Finite 10000000000000000"
  by (rule round_double_eval [where e = 53 and k = 5000000000000000])
     (simp_all add: round_even_def)

lemma round_1e16_2: "round_double 10000000000000002 = Finite 10000000000000002"
  by (rule round_double_eval [where e = 53 and k = 5000000000000001])
     (simp_all add: round_even_def)

lemma round_tiny: "round_double (1 / 2 ^ 60) = Finite (1 / 2 ^ 60)"
  by (rule round_double_eval [where e = "- 60" and k = "2 ^ 52"])
     (simp_all add: round_even_def)

lemma round_tiny_minus_1: "round_double (1 / 2 ^ 60 - 1) = Finite (- 1)"
  by (rule round_double_eval [where e = "- 1" and k = "- (2 ^ 53)"])
     (simp_all add: round_even_def)

lemma round_0: "round_double 0 = Finite 0"
  by (simp add: round_double_def round_even_def Let_def)

lemma round_neg_1e16_2: "round_double (- 10000000000000002) = Finite (- 10000000000000002)"
  by (rule round_double_eval [where e = 53 and k = "- 5000000000000001"])
     (simp_all add: round_even_def)

lemma round_half: "round_double (1/2) = Finite (1/2)"
  by (rule round_double_eval [where e = "- 1" and k = "2 ^ 52"])
     (simp_all add: round_even_def)

lemma round_fifth: "round_double (1/5) = Finite (3602879701896397 / 2 ^ 54)"
  by (rule round_double_eval [where e = "- 3" and k = 7205759403792794])
     (simp_all add: round_even_def)

text \<open>The timeout \<^verbatim>\<open>init\<close> falls back to, to the nanosecond: a fifth of a second.\<close>

lemma default_timeout:
  "nanoseconds (std_min (Finite 1) (std_max (Finite 0) (round_double (1/5)))) = 1/5"
  by (simp add: round_fifth std_min_def std_max_def nanoseconds_def)

section \<open>Properties of the torque rate saturation\<close>

lemma saturate_loop_length:
  "length (saturate_loop d c p i s) = length s"
proof (induction d c p i s rule: saturate_loop.induct)
  case (1 d c p i s)
  show ?case
  proof (cases "i < 7")
    case True
    with "1.IH" [OF True refl] show ?thesis
      by (subst saturate_loop.simps) (simp add: Let_def)
  next
    case False
    then show ?thesis by (subst saturate_loop.simps) simp
  qed
qed

lemma saturate_loop_nth:
  "length s = 7 \<Longrightarrow> j < 7 \<Longrightarrow>
   saturate_loop d c p i s ! j =
     (if i \<le> j then dadd (p ! j) (std_max (std_min (dsub (c ! j) (p ! j)) d) (dneg d))
      else s ! j)"
proof (induction d c p i s rule: saturate_loop.induct)
  case (1 d c p i s)
  show ?case
  proof (cases "i < 7")
    case True
    let ?s' = "s[i := dadd (p ! i) (std_max (std_min (dsub (c ! i) (p ! i)) d) (dneg d))]"
    have len: "length ?s' = 7" using "1.prems" by simp
    have step: "saturate_loop d c p i s = saturate_loop d c p (i + 1) ?s'"
      using True by (subst saturate_loop.simps) (simp add: Let_def)
    have "saturate_loop d c p (i + 1) ?s' ! j =
        (if i + 1 \<le> j
         then dadd (p ! j) (std_max (std_min (dsub (c ! j) (p ! j)) d) (dneg d))
         else ?s' ! j)"
      using "1.IH" [OF True refl len "1.prems"(2)] .
    with step True "1.prems" show ?thesis
      by (cases "i = j") auto
  next
    case False
    with "1.prems" show ?thesis by (subst saturate_loop.simps) simp
  qed
qed

lemma saturateTorqueRate_nth:
  "j < 7 \<Longrightarrow>
   saturateTorqueRate d c p ! j =
     dadd (p ! j) (std_max (std_min (dsub (c ! j) (p ! j)) d) (dneg d))"
  by (simp add: saturateTorqueRate_def saturate_loop_nth)

lemma saturateTorqueRate_length: "length (saturateTorqueRate d c p) = 7"
  by (simp add: saturateTorqueRate_def saturate_loop_length)

text \<open>The clamped difference is a finite double within the maximum rate.\<close>

lemma clamp_finite:
  assumes "0 \<le> m" and "a \<noteq> NaN"
  shows "\<exists>d. std_max (std_min a (Finite m)) (dneg (Finite m)) = Finite d \<and> \<bar>d\<bar> \<le> m \<and>
    (\<forall>z. a = Finite z \<and> \<bar>z\<bar> \<le> m \<longrightarrow> d = z)"
  using assms by (cases a) (auto simp: std_min_def std_max_def)

text \<open>
  Claim C7, as stated, fails on doubles. With the maximum rate 1: at joint 0 the previous
  torque is \<open>10 ^ 16 + 2\<close>, the clamped difference is \<open>- 1\<close> and their sum rounds to
  \<open>10 ^ 16\<close>, which is 2 away from the previous torque; at joint 1 the difference
  \<open>2 ^ - 60 - 1\<close> is within the maximum rate and rounds to \<open>- 1\<close>, so the output is 0
  and not the computed torque \<open>2 ^ - 60\<close>. All the numbers of the two vectors are doubles.
\<close>

theorem saturateTorqueRate_rounding_breaks_bound:
  "length calc_example = 7 \<and> length prev_example = 7 \<and>
   round_double 10000000000000002 = Finite 10000000000000002 \<and>
   round_double (1 / 2 ^ 60) = Finite (1 / 2 ^ 60) \<and>
   prev_example ! 0 = Finite 10000000000000002 \<and>
   saturateTorqueRate (Finite 1) calc_example prev_example ! 0 = Finite 10000000000000000 \<and>
   (1::real) < \<bar>10000000000000000 - 10000000000000002\<bar> \<and>
   calc_example ! 1 = Finite (1 / 2 ^ 60) \<and> prev_example ! 1 = Finite 1 \<and>
   \<bar>1 / 2 ^ 60 - 1\<bar> \<le> (1::real) \<and>
   saturateTorqueRate (Finite 1) calc_example prev_example ! 1 = Finite 0 \<and>
   Finite 0 \<noteq> Finite (1 / 2 ^ 60)"
proof -
  have d0: "dsub (Finite 0) (Finite 10000000000000002) = Finite (- 10000000000000002)"
    by (simp add: dsub_def round_neg_1e16_2)
  have out0: "saturateTorqueRate (Finite 1) calc_example prev_example ! 0
      = Finite 10000000000000000"
    by (simp add: saturateTorqueRate_nth calc_example_def prev_example_def d0
        round_1e16_1 std_min_def std_max_def)
  have "dsub (Finite (1 / 2 ^ 60)) (Finite 1) = round_double (1 / 2 ^ 60 - 1)"
    by (simp add: dsub_def)
  then have d1: "dsub (Finite (1 / 2 ^ 60)) (Finite 1) = Finite (- 1)"
    by (simp only: round_tiny_minus_1)
  have "saturateTorqueRate (Finite 1) calc_example prev_example ! 1
      = dadd (Finite 1)
          (std_max (std_min (dsub (Finite (1 / 2 ^ 60)) (Finite 1)) (Finite 1))
            (dneg (Finite 1)))"
    by (simp add: saturateTorqueRate_nth calc_example_def prev_example_def)
  also have "\<dots> = Finite 0"
    by (simp only: d1) (simp add: std_min_def std_max_def round_0)
  finally have out1: "saturateTorqueRate (Finite 1) calc_example prev_example ! 1 = Finite 0" .
  have ex: "prev_example ! 0 = Finite 10000000000000002"
    "calc_example ! 1 = Finite (1 / 2 ^ 60)" "prev_example ! 1 = Finite 1"
    "length calc_example = 7" "length prev_example = 7"
    by (simp_all add: calc_example_def prev_example_def)
  have num: "(1::real) < \<bar>10000000000000000 - 10000000000000002\<bar>"
    "\<bar>1 / 2 ^ 60 - 1\<bar> \<le> (1::real)" "Finite 0 \<noteq> Finite (1 / 2 ^ 60)"
    by simp_all
  from ex num out0 out1 round_1e16_2 round_tiny show ?thesis by blast
qed

text \<open>
  Claim C7, amended. For torque vectors of seven joints, a finite maximum rate that is
  not negative and every joint whose computed and previous torque are finite, the output
  has seven components and its component is the previous torque plus a delta, rounded to
  the nearest double, where the delta is at most the maximum rate in absolute value, and
  where the rounded difference of the computed and the previous torque is within the
  maximum rate the delta is that difference.
\<close>

theorem saturateTorqueRate_rounded:
  assumes "length tau_d_calculated = 7" and "length tau_J_d = 7"
    and "0 \<le> m" and "i < 7"
    and "tau_d_calculated ! i = Finite x" and "tau_J_d ! i = Finite y"
  shows "length (saturateTorqueRate (Finite m) tau_d_calculated tau_J_d) = 7 \<and>
    (\<exists>d. \<bar>d\<bar> \<le> m \<and>
       saturateTorqueRate (Finite m) tau_d_calculated tau_J_d ! i = round_double (y + d) \<and>
       (\<forall>z. round_double (x - y) = Finite z \<and> \<bar>z\<bar> \<le> m \<longrightarrow> d = z))"
proof -
  have diff: "dsub (tau_d_calculated ! i) (tau_J_d ! i) = round_double (x - y)"
    using assms(5,6) by (simp add: dsub_def)
  have "round_double (x - y) \<noteq> NaN" by (rule round_double_not_NaN)
  from clamp_finite [OF assms(3) this]
  obtain d where c: "std_max (std_min (round_double (x - y)) (Finite m)) (dneg (Finite m))
        = Finite d"
    and b: "\<bar>d\<bar> \<le> m"
    and e: "\<forall>z. round_double (x - y) = Finite z \<and> \<bar>z\<bar> \<le> m \<longrightarrow> d = z"
    by blast
  have "saturateTorqueRate (Finite m) tau_d_calculated tau_J_d ! i
      = dadd (tau_J_d ! i)
          (std_max (std_min (dsub (tau_d_calculated ! i) (tau_J_d ! i)) (Finite m))
            (dneg (Finite m)))"
    using assms(4) by (rule saturateTorqueRate_nth)
  also have "\<dots> = dadd (Finite y) (Finite d)"
    by (simp only: diff) (simp only: c assms(6))
  also have "\<dots> = round_double (y + d)"
    by simp
  finally have "saturateTorqueRate (Finite m) tau_d_calculated tau_J_d ! i
      = round_double (y + d)" .
  with b e saturateTorqueRate_length show ?thesis by blast
qed

theorem saturateTorqueRate_rounded_witness:
  "length calc_example = 7 \<and> length prev_example = 7 \<and> (0::real) \<le> 1 \<and> (3::nat) < 7 \<and>
   calc_example ! 3 = Finite (1/2) \<and> prev_example ! 3 = Finite 0 \<and>
   length (saturateTorqueRate (Finite 1) calc_example prev_example) = 7 \<and>
   saturateTorqueRate (Finite 1) calc_example prev_example ! 3 = Finite (1/2)"
proof -
  have h: "length calc_example = 7" "length prev_example = 7" "(0::real) \<le> 1" "(3::nat) < 7"
    "calc_example ! 3 = Finite (1/2)" "prev_example ! 3 = Finite 0"
    by (simp_all add: calc_example_def prev_example_def eval_nat_numeral)
  from saturateTorqueRate_rounded [OF h]
  obtain d where len: "length (saturateTorqueRate (Finite 1) calc_example prev_example) = 7"
    and out: "saturateTorqueRate (Finite 1) calc_example prev_example ! 3
        = round_double (0 + d)"
    and e: "\<forall>z. round_double (1/2 - 0) = Finite z \<and> \<bar>z\<bar> \<le> 1 \<longrightarrow> d = z"
    by blast
  have "round_double (1/2 - 0) = Finite (1/2) \<and> \<bar>1/2\<bar> \<le> (1::real)"
    using round_half by simp
  with e have "d = 1/2" by blast
  with out round_half
  have "saturateTorqueRate (Finite 1) calc_example prev_example ! 3 = Finite (1/2)"
    by simp
  with h len show ?thesis by blast
qed

section \<open>Properties of the stiffness callback\<close>

lemma set_coeff_apply:
  "set_coeff M i j v a b = (if a = i \<and> b = j then v else M a b)"
  by (simp add: set_coeff_def)

lemma filter_mat_one: "filter_mat 1 T M = T"
  by (simp add: filter_mat_def)

lemma callback_diag_damping:
  assumes "use_flag msg = 0" and "msg_bx msg = - 1"
  shows "cartesian_damping_target (stiffnessParamCallback msg s) i j =
     (if i = 5 \<and> j = 5 then 0.5 * sqrt (msg_zrot msg)
      else if i = 4 \<and> j = 4 then 0.5 * sqrt (msg_yrot msg)
      else if i = 3 \<and> j = 3 then 0.5 * sqrt (msg_xrot msg)
      else if i = 2 \<and> j = 2 then 0.5 * sqrt (msg_z msg)
      else if i = 1 \<and> j = 1 then 0.5 * sqrt (msg_y msg)
      else if i = 0 \<and> j = 0 then 0.5 * sqrt (msg_x msg)
      else setIdentity i j)"
  using assms unfolding stiffnessParamCallback_def by (simp add: set_coeff_apply)

text \<open>
  Claim C1, as stated, fails. For the diagonal message with the six gains 4 and the
  damping sentinel \<open>- 1\<close>, twice the square root of the gain is 4, and the stored damping
  target of the first axis is 1, before and after one filter step with coefficient 1.
\<close>

theorem stiffness_damping_not_twice_sqrt:
  "use_flag gain4_msg = 0 \<and> msg_bx gain4_msg = - 1 \<and> 0 < msg_x gain4_msg \<and>
   0 < msg_y gain4_msg \<and> 0 < msg_z gain4_msg \<and> 0 < msg_xrot gain4_msg \<and>
   0 < msg_yrot gain4_msg \<and> 0 < msg_zrot gain4_msg \<and>
   2 * sqrt (msg_x gain4_msg) = 4 \<and>
   cartesian_damping_target (stiffnessParamCallback gain4_msg idle_gains) 0 0 = 1 \<and>
   cartesian_damping_target (stiffnessParamCallback gain4_msg idle_gains) 0 0
     \<noteq> 2 * sqrt (msg_x gain4_msg) \<and>
   cartesian_damping (update_gains 1 (stiffnessParamCallback gain4_msg idle_gains)) 0 0 = 1"
  by (simp add: gain4_msg_def zero_msg_def update_gains_def filter_mat_one
      callback_diag_damping)

text \<open>
  Claim C1, amended. For every stiffness message in diagonal mode (\<open>use_flag = 0\<close>) with
  six positive gains and the damping sentinel \<open>bx = - 1\<close>, the stored damping target of
  each of the six axes is half the square root of the gain of that axis, and one filter
  step with coefficient 1 makes the applied damping equal to the target.
\<close>

theorem stiffness_damping_half_sqrt:
  assumes "use_flag msg = 0" and "msg_bx msg = - 1"
    and "0 < msg_x msg" "0 < msg_y msg" "0 < msg_z msg"
    and "0 < msg_xrot msg" "0 < msg_yrot msg" "0 < msg_zrot msg"
  shows "cartesian_damping_target (stiffnessParamCallback msg s) 0 0 = 0.5 * sqrt (msg_x msg) \<and>
    cartesian_damping_target (stiffnessParamCallback msg s) 1 1 = 0.5 * sqrt (msg_y msg) \<and>
    cartesian_damping_target (stiffnessParamCallback msg s) 2 2 = 0.5 * sqrt (msg_z msg) \<and>
    cartesian_damping_target (stiffnessParamCallback msg s) 3 3 = 0.5 * sqrt (msg_xrot msg) \<and>
    cartesian_damping_target (stiffnessParamCallback msg s) 4 4 = 0.5 * sqrt (msg_yrot msg) \<and>
    cartesian_damping_target (stiffnessParamCallback msg s) 5 5 = 0.5 * sqrt (msg_zrot msg) \<and>
    cartesian_damping (update_gains 1 (stiffnessParamCallback msg s))
      = cartesian_damping_target (stiffnessParamCallback msg s)"
  using assms(1,2) by (simp add: callback_diag_damping update_gains_def filter_mat_one)

theorem stiffness_damping_half_sqrt_witness:
  "use_flag gain4_msg = 0 \<and> msg_bx gain4_msg = - 1 \<and> 0 < msg_x gain4_msg \<and>
   0 < msg_y gain4_msg \<and> 0 < msg_z gain4_msg \<and> 0 < msg_xrot gain4_msg \<and>
   0 < msg_yrot gain4_msg \<and> 0 < msg_zrot gain4_msg \<and>
   cartesian_damping_target (stiffnessParamCallback gain4_msg idle_gains) 5 5 = 1 \<and>
   cartesian_damping (update_gains 1 (stiffnessParamCallback gain4_msg idle_gains))
      = cartesian_damping_target (stiffnessParamCallback gain4_msg idle_gains)"
  using stiffness_damping_half_sqrt [of gain4_msg idle_gains]
  by (simp add: gain4_msg_def zero_msg_def)

lemma callback_nullspace_target:
  "nullspace_stiffness_target (stiffnessParamCallback msg s) = nullspace_stiffness_target s"
  by (simp add: stiffnessParamCallback_def)

lemma callback_nullspace:
  "nullspace_stiffness (stiffnessParamCallback msg s) = nullspace_stiffness s"
  by (simp add: stiffnessParamCallback_def)

lemma gains_step_target:
  "nullspace_stiffness_target (gains_step a e s) = nullspace_stiffness_target s"
  by (cases e) (simp_all add: callback_nullspace_target update_gains_def)

lemma gains_run_target:
  "nullspace_stiffness_target (gains_run a es s) = nullspace_stiffness_target s"
  by (induction es arbitrary: s) (simp_all add: gains_step_target)

lemma gains_run_nullspace:
  "nullspace_stiffness_target s = 0 \<Longrightarrow>
   nullspace_stiffness (gains_run a es s) = (1 - a) ^ cycles es * nullspace_stiffness s"
proof (induction es arbitrary: s)
  case Nil
  then show ?case by simp
next
  case (Cons e es)
  have t: "nullspace_stiffness_target (gains_step a e s) = 0"
    using Cons.prems by (simp add: gains_step_target)
  show ?case
  proof (cases e)
    case (Stiffness msg)
    then show ?thesis using Cons.IH [OF t] by (simp add: callback_nullspace)
  next
    case Cycle
    then show ?thesis using Cons.IH [OF t] Cons.prems by (simp add: update_gains_def)
  qed
qed

lemma impedance_init_nullspace:
  "impedance_init g ns = Some s \<Longrightarrow>
   nullspace_stiffness_target s = 0 \<and> nullspace_stiffness s = ns"
  by (auto simp: impedance_init_def split: option.splits if_splits)

text \<open>
  Claim C10. The stiffness callback leaves the nullspace stiffness target as it is, in both
  encodings. From the state \<open>init\<close> leaves, after any sequence of stiffness messages and
  control cycles, the target is still 0 and the filtered nullspace stiffness is the value
  of its declaration times \<open>(1 - a) ^ n\<close> for \<open>n\<close> the number of cycles: it stays 0 when it
  starts at 0, and for a filter coefficient in \<open>(0, 1]\<close> it tends to 0 along any runs whose
  number of cycles grows without bound.
\<close>

theorem nullspace_target_stays_zero:
  assumes "impedance_init g ns = Some s0"
  shows "nullspace_stiffness_target (stiffnessParamCallback msg s)
        = nullspace_stiffness_target s \<and>
    nullspace_stiffness_target (gains_run a es s0) = 0 \<and>
    nullspace_stiffness (gains_run a es s0) = (1 - a) ^ cycles es * ns \<and>
    (0 < a \<and> a \<le> 1 \<and> filterlim (\<lambda>n. cycles (run n)) at_top sequentially \<longrightarrow>
       (\<lambda>n. nullspace_stiffness (gains_run a (run n) s0)) \<longlonglongrightarrow> 0)"
proof (intro conjI impI)
  note i = impedance_init_nullspace [OF assms]
  show "nullspace_stiffness_target (stiffnessParamCallback msg s)
        = nullspace_stiffness_target s"
    by (rule callback_nullspace_target)
  show "nullspace_stiffness_target (gains_run a es s0) = 0"
    using i by (simp add: gains_run_target)
  show "nullspace_stiffness (gains_run a es s0) = (1 - a) ^ cycles es * ns"
    using i by (simp add: gains_run_nullspace)
  assume a: "0 < a \<and> a \<le> 1 \<and> filterlim (\<lambda>n. cycles (run n)) at_top sequentially"
  then have "norm (1 - a) < 1" by simp
  then have "(\<lambda>k. (1 - a) ^ k) \<longlonglongrightarrow> 0" by (rule LIMSEQ_power_zero)
  moreover have "filterlim (\<lambda>n. cycles (run n)) at_top sequentially"
    using a by simp
  ultimately have "(\<lambda>n. (1 - a) ^ cycles (run n)) \<longlonglongrightarrow> 0"
    by (rule filterlim_compose)
  then have "(\<lambda>n. (1 - a) ^ cycles (run n) * ns) \<longlonglongrightarrow> 0 * ns"
    by (rule tendsto_mult_right)
  then show "(\<lambda>n. nullspace_stiffness (gains_run a (run n) s0)) \<longlonglongrightarrow> 0"
    using i by (simp add: gains_run_nullspace)
qed

lemma cycles_replicate: "cycles (replicate n Cycle) = n"
  by (induction n) simp_all


theorem nullspace_target_stays_zero_witness:
  "impedance_init (Some six_gains) 20 \<noteq> None \<and>
   nullspace_stiffness_target
     (gains_run (1/2) [Cycle, Stiffness gain4_msg, Cycle] (the (impedance_init (Some six_gains) 20))) = 0 \<and>
   nullspace_stiffness
     (gains_run (1/2) [Cycle, Stiffness gain4_msg, Cycle] (the (impedance_init (Some six_gains) 20))) = 5 \<and>
   (\<lambda>n. nullspace_stiffness
       (gains_run (1/2) (replicate n Cycle) (the (impedance_init (Some six_gains) 20))))
     \<longlonglongrightarrow> 0"
proof -
  have i: "impedance_init (Some six_gains) 20 = Some (the (impedance_init (Some six_gains) 20))"
    by (simp add: impedance_init_def six_gains_def)
  have l: "filterlim (\<lambda>n. cycles (replicate n Cycle)) at_top sequentially"
    by (simp add: cycles_replicate filterlim_ident)
  note t = nullspace_target_stays_zero [OF i, of _ _ "1/2"]
  have "nullspace_stiffness_target
     (gains_run (1/2) [Cycle, Stiffness gain4_msg, Cycle] (the (impedance_init (Some six_gains) 20))) = 0"
    using t [of _ _ "[Cycle, Stiffness gain4_msg, Cycle]"] by blast
  moreover have "nullspace_stiffness
     (gains_run (1/2) [Cycle, Stiffness gain4_msg, Cycle] (the (impedance_init (Some six_gains) 20))) = 5"
    using t [of _ _ "[Cycle, Stiffness gain4_msg, Cycle]"]
    by (simp add: power2_eq_square)
  moreover have "(\<lambda>n. nullspace_stiffness
       (gains_run (1/2) (replicate n Cycle) (the (impedance_init (Some six_gains) 20))))
     \<longlonglongrightarrow> 0"
  proof -
    have "0 < (1/2::real) \<and> (1/2::real) \<le> 1 \<and>
        filterlim (\<lambda>n. cycles (replicate n Cycle)) at_top sequentially"
      using l by simp
    with t [of _ _ _ "\<lambda>n. replicate n Cycle"] show ?thesis by blast
  qed
  moreover have "impedance_init (Some six_gains) 20 \<noteq> None"
    by (simp add: impedance_init_def six_gains_def)
  ultimately show ?thesis by blast
qed

section \<open>Properties of the orientation error\<close>











section \<open>Properties of the arbiter\<close>

lemmas arbiter_examples =
  default_arbiter_def torque_active_def stray_arbiter_def arbiter_init_def no_params_def
  twin_arbiter_def twin_default_params_def stray_torque_active_def twin_torque_active_def
  default_timeout
  stray_default_params_def example_codes_def getParam_or_def Let_def

lemma torque_active_reached:
  "arbiter_run example_codes nanoseconds [CommandMsg 0 3 True] default_arbiter = Inr torque_active"
  by (simp add: arbiter_examples jointCommandCallback_def switchControllers_def
      switch_case_def vec_at_def log_controllers_def)

lemma init_all_controllers:
  "all_controllers (arbiter_init c Duration p) = configured_controllers (arbiter_init c Duration p)"
  by (simp add: arbiter_init_def configured_controllers_def Let_def)

text \<open>
  Claim C5. A request for the mode that is already the current mode returns true and
  leaves the whole state as it is; the record of switch requests is part of the state, so
  no request is made to the controller manager.
\<close>

theorem switchControllers_same_mode:
  "switchControllers c switched (current_mode s) s = Inr (True, s)"
  by (simp add: switchControllers_def)

section \<open>Properties of switching by mode\<close>

lemma switch_case_shape:
  assumes "switch_case c s m = Some (start, stop)"
  shows "length start = 1 \<and> length stop = 7 \<and>
    mset (start @ stop) = mset (configured_controllers s)"
  using assms
  by (auto simp: switch_case_def configured_controllers_def split: if_splits)

lemma switch_case_recognized:
  "recognized c m \<Longrightarrow> \<exists>name stop. switch_case c s m = Some ([name], stop)"
  by (auto simp: recognized_def switch_case_def)

lemma switchControllers_switched:
  assumes "current_mode s \<noteq> m" and "switch_case c s m = Some ([name], stop)"
    and "length stop = 7"
  shows "switchControllers c True m s =
    Inr (True, s\<lparr>switch_requests := switch_requests s @ [([name], stop)],
                 current_mode := m, current_controller_name := name\<rparr>)"
  using assms by (simp add: switchControllers_def vec_at_def log_controllers_def)

text \<open>
  Claim C3. For distinct mode codes and a recognized mode other than the current one, when
  the controller manager serves the request, \<open>switchControllers\<close> returns true, the current
  mode is the requested one, one request has been made whose start list is the one
  controller of that mode (which is the current controller afterwards) and whose stop
  list has seven names: together they are the eight configured controllers.
\<close>

theorem switchControllers_starts_mapped:
  assumes "distinct_codes c" and "recognized c m" and "m \<noteq> current_mode s"
  shows "\<exists>name stop.
    switchControllers c True m s =
      Inr (True, s\<lparr>switch_requests := switch_requests s @ [([name], stop)],
                   current_mode := m, current_controller_name := name\<rparr>) \<and>
    (m = POSITION_MODE c \<longrightarrow> name = joint_position_controller_name s) \<and>
    (m = VELOCITY_MODE c \<longrightarrow> name = joint_velocity_controller_name s) \<and>
    (m = TORQUE_MODE c \<longrightarrow> name = joint_torque_controller_name s) \<and>
    (m = IMPEDANCE_MODE c \<longrightarrow> name = joint_impedance_controller_name s) \<and>
    length stop = 7 \<and>
    mset (name # stop) = mset (configured_controllers s)"
proof -
  from switch_case_recognized [OF assms(2)]
  obtain name stop where sc: "switch_case c s m = Some ([name], stop)"
    by blast
  from switch_case_shape [OF sc]
  have len: "length stop = 7" and ms: "mset (name # stop) = mset (configured_controllers s)"
    by simp_all
  have sw: "switchControllers c True m s =
      Inr (True, s\<lparr>switch_requests := switch_requests s @ [([name], stop)],
                   current_mode := m, current_controller_name := name\<rparr>)"
    using assms(3) sc len by (intro switchControllers_switched) auto
  have "(m = POSITION_MODE c \<longrightarrow> name = joint_position_controller_name s) \<and>
    (m = VELOCITY_MODE c \<longrightarrow> name = joint_velocity_controller_name s) \<and>
    (m = TORQUE_MODE c \<longrightarrow> name = joint_torque_controller_name s) \<and>
    (m = IMPEDANCE_MODE c \<longrightarrow> name = joint_impedance_controller_name s)"
    using sc assms(1) by (auto simp: switch_case_def distinct_codes_def split: if_splits)
  with sw len ms show ?thesis by blast
qed

theorem switchControllers_starts_mapped_witness:
  "distinct_codes example_codes \<and> recognized example_codes 3 \<and>
   3 \<noteq> current_mode default_arbiter \<and> TORQUE_MODE example_codes = 3 \<and>
   (\<exists>stop. switchControllers example_codes True 3 default_arbiter =
      Inr (True, default_arbiter\<lparr>switch_requests := [([''joint_torque_controller''], stop)],
             current_mode := 3, current_controller_name := ''joint_torque_controller''\<rparr>) \<and>
      length stop = 7)"
proof -
  have h1: "distinct_codes example_codes"
    by (simp add: distinct_codes_def example_codes_def)
  have h2: "recognized example_codes 3"
    by (simp add: recognized_def example_codes_def)
  have h3: "3 \<noteq> current_mode default_arbiter"
    by (simp add: arbiter_examples)
  have t: "TORQUE_MODE example_codes = 3"
    by (simp add: example_codes_def)
  have j: "joint_torque_controller_name default_arbiter = ''joint_torque_controller''"
    and r: "switch_requests default_arbiter = []"
    by (simp_all add: arbiter_examples)
  from switchControllers_starts_mapped [OF h1 h2 h3]
  obtain name stop where
    sw: "switchControllers example_codes True 3 default_arbiter =
      Inr (True, default_arbiter\<lparr>switch_requests :=
                   switch_requests default_arbiter @ [([name], stop)],
                 current_mode := 3, current_controller_name := name\<rparr>)"
    and n: "3 = TORQUE_MODE example_codes \<longrightarrow> name = joint_torque_controller_name default_arbiter"
    and l: "length stop = 7"
    by blast
  from n t j have "name = ''joint_torque_controller''" by simp
  with sw l r have "\<exists>stop. switchControllers example_codes True 3 default_arbiter =
      Inr (True, default_arbiter\<lparr>switch_requests := [([''joint_torque_controller''], stop)],
             current_mode := 3, current_controller_name := ''joint_torque_controller''\<rparr>) \<and>
      length stop = 7"
    by auto
  with h1 h2 h3 t show ?thesis by blast
qed

text \<open>
  Claim C4, as stated, fails: \<open>- 1\<close> is none of the example codes and is the current mode
  after \<open>init\<close>; a request for it returns true, although the mode is not recognized.
\<close>

theorem switchControllers_unrecognized_same_mode:
  "\<not> recognized example_codes (- 1) \<and>
   current_mode (arbiter_init example_codes nanoseconds no_params) = - 1 \<and>
   switchControllers example_codes False (- 1)
       (arbiter_init example_codes nanoseconds no_params)
     = Inr (True, arbiter_init example_codes nanoseconds no_params)"
  by (simp add: recognized_def example_codes_def switchControllers_def arbiter_init_def Let_def)

text \<open>
  Claim C4, amended. For a requested mode other than the current mode, if the mode is not
  recognized or the controller manager refuses the request, \<open>switchControllers\<close> returns
  false, and current mode and current controller name are as before; nothing but the
  record of requests differs, and for a mode that is not recognized the state is the same.
\<close>

theorem switchControllers_rejects:
  assumes "current_mode s \<noteq> m" and "\<not> recognized c m \<or> \<not> switched"
  shows "\<exists>s'. switchControllers c switched m s = Inr (False, s') \<and>
    current_mode s' = current_mode s \<and>
    current_controller_name s' = current_controller_name s \<and>
    s' = s\<lparr>switch_requests := switch_requests s'\<rparr> \<and>
    (\<not> recognized c m \<longrightarrow> s' = s)"
proof (cases "switch_case c s m")
  case None
  with assms(1) show ?thesis by (simp add: switchControllers_def)
next
  case (Some r)
  then have rec: "recognized c m"
    by (auto simp: switch_case_def recognized_def split: if_splits)
  with assms(2) have "\<not> switched" by blast
  with Some assms(1) rec show ?thesis
    by (cases r) (simp add: switchControllers_def)
qed

theorem switchControllers_rejects_witness:
  "current_mode default_arbiter \<noteq> 7 \<and> \<not> recognized example_codes 7 \<and>
   switchControllers example_codes True 7 default_arbiter = Inr (False, default_arbiter) \<and>
   current_mode default_arbiter \<noteq> 3 \<and>
   (\<exists>s'. switchControllers example_codes False 3 default_arbiter = Inr (False, s') \<and>
      current_mode s' = current_mode default_arbiter \<and>
      current_controller_name s' = current_controller_name default_arbiter)"
proof -
  have h7: "current_mode default_arbiter \<noteq> 7" and h3: "current_mode default_arbiter \<noteq> 3"
    by (simp_all add: arbiter_examples)
  have u: "\<not> recognized example_codes 7"
    by (simp add: recognized_def example_codes_def)
  then have d7: "\<not> recognized example_codes 7 \<or> \<not> True" by simp
  have d3: "\<not> recognized example_codes 3 \<or> \<not> False" by simp
  from switchControllers_rejects [OF h7 d7] u
  have a: "switchControllers example_codes True 7 default_arbiter = Inr (False, default_arbiter)"
    by auto
  from switchControllers_rejects [OF h3 d3]
  have b: "\<exists>s'. switchControllers example_codes False 3 default_arbiter = Inr (False, s') \<and>
      current_mode s' = current_mode default_arbiter \<and>
      current_controller_name s' = current_controller_name default_arbiter"
    by blast
  from h7 h3 u a b show ?thesis by blast
qed

section \<open>Properties of the watchdog\<close>

lemma default_loop_filter:
  "default_loop d ns start stop =
     (start @ filter (\<lambda>n. n = d) ns, stop @ filter (\<lambda>n. n \<noteq> d) ns)"
  by (induction ns arbitrary: start stop) simp_all

lemma default_configured_stop:
  assumes "default_configured s"
  shows "length (filter (\<lambda>n. n \<noteq> default_controller_name s) (all_controllers s)) = 7"
proof -
  have "length (filter (\<lambda>n. n = default_controller_name s) (all_controllers s))
      + length (filter (\<lambda>n. n \<noteq> default_controller_name s) (all_controllers s))
      = length (all_controllers s)"
    by (rule sum_length_filter_compl)
  with assms show ?thesis by (simp add: default_configured_def)
qed

lemma switchToDefaultController_switched:
  assumes "default_configured s"
  shows "\<exists>s1. switchToDefaultController True s = Inr (True, s1) \<and>
    current_controller_name s1 = default_controller_name s \<and>
    default_controller_name s1 = default_controller_name s \<and>
    switch_requests s1 = switch_requests s @
      [([default_controller_name s],
        filter (\<lambda>n. n \<noteq> default_controller_name s) (all_controllers s))]"
proof -
  have f: "filter (\<lambda>n. n = default_controller_name s) (all_controllers s)
      = [default_controller_name s]"
    using assms by (simp add: default_configured_def)
  show ?thesis
    using default_configured_stop [OF assms]
    by (simp add: switchToDefaultController_def default_loop_filter f vec_at_def
        log_controllers_def Let_def split: prod.splits)
qed

lemma commandTimeoutCheck_at_default:
  "current_controller_name s = default_controller_name s \<Longrightarrow>
   commandTimeoutCheck switched now s = Inr s"
  by (simp add: commandTimeoutCheck_def)

lemma arbiter_run_at_default:
  assumes "current_controller_name s = default_controller_name s"
    and "\<not> list_ex is_command es"
  shows "\<exists>s2. arbiter_run c Duration es s = Inr s2 \<and>
    switch_requests s2 = switch_requests s \<and>
    current_controller_name s2 = current_controller_name s \<and>
    default_controller_name s2 = default_controller_name s"
  using assms
proof (induction es arbitrary: s)
  case Nil
  then show ?case by simp
next
  case (Cons e es)
  from Cons.prems(2) have rest: "\<not> list_ex is_command es" by simp
  show ?case
  proof (cases e)
    case (Tick now switched)
    with Cons.IH [OF Cons.prems(1) rest] Cons.prems(1) show ?thesis
      by (simp add: commandTimeoutCheck_at_default)
  next
    case (TimeoutMsg data)
    let ?s = "jointCommandTimeoutCallback Duration data s"
    have "current_controller_name ?s = default_controller_name ?s"
      using Cons.prems(1) by (simp add: jointCommandTimeoutCallback_def)
    from Cons.IH [OF this rest] TimeoutMsg show ?thesis
      by (simp add: jointCommandTimeoutCallback_def)
  next
    case (CommandMsg now mode switched)
    with Cons.prems(2) show ?thesis by simp
  qed
qed

text \<open>
  Where the default controller is exactly one of the eight controllers, with a command
  time stored, more than the timeout elapsed since and a current controller other than
  the default, a tick that the controller manager serves makes one request, to start the
  default controller and stop the other seven, and the default is the current controller
  afterwards. Any later ticks and timeout messages, with no command among them, make no
  further request.
\<close>

lemma watchdog_switches_once:
  assumes "default_configured s"
    and "box_cmd_timeout s = Some cmd_msg_time"
    and "box_timeout_length s = Some timeout_length"
    and "now - cmd_msg_time > timeout_length"
    and "current_controller_name s \<noteq> default_controller_name s"
  shows "\<exists>s1. commandTimeoutCheck True now s = Inr s1 \<and>
    current_controller_name s1 = default_controller_name s \<and>
    switch_requests s1 = switch_requests s @
      [([default_controller_name s],
        filter (\<lambda>n. n \<noteq> default_controller_name s) (all_controllers s))] \<and>
    (\<forall>es. \<not> list_ex is_command es \<longrightarrow>
       (\<exists>s2. arbiter_run c Duration es s1 = Inr s2 \<and>
          switch_requests s2 = switch_requests s1 \<and>
          current_controller_name s2 = default_controller_name s))"
proof -
  from switchToDefaultController_switched [OF assms(1)]
  obtain s1 where sw: "switchToDefaultController True s = Inr (True, s1)"
    and cur: "current_controller_name s1 = default_controller_name s"
    and def: "default_controller_name s1 = default_controller_name s"
    and req: "switch_requests s1 = switch_requests s @
      [([default_controller_name s],
        filter (\<lambda>n. n \<noteq> default_controller_name s) (all_controllers s))]"
    by blast
  have tick: "commandTimeoutCheck True now s = Inr s1"
    using assms(2-5) sw by (simp add: commandTimeoutCheck_def)
  have later: "\<exists>s2. arbiter_run c Duration es s1 = Inr s2 \<and>
          switch_requests s2 = switch_requests s1 \<and>
          current_controller_name s2 = default_controller_name s"
    if "\<not> list_ex is_command es" for es
    using arbiter_run_at_default [of s1 es c Duration] that cur def by auto
  from tick cur req later show ?thesis by blast
qed

lemma watchdog_switches_once_example:
  "arbiter_run example_codes nanoseconds [CommandMsg 0 3 True] default_arbiter = Inr torque_active \<and>
   default_configured torque_active \<and>
   box_cmd_timeout torque_active = Some 0 \<and>
   box_timeout_length torque_active = Some (1/5) \<and>
   (1::real) - 0 > 1/5 \<and>
   current_controller_name torque_active \<noteq> default_controller_name torque_active \<and>
   (\<exists>s1. commandTimeoutCheck True 1 torque_active = Inr s1 \<and>
      current_controller_name s1 = ''position_joint_trajectory_controller'' \<and>
      length (switch_requests s1) = 2 \<and>
      (\<exists>s2. arbiter_run example_codes nanoseconds [Tick 2 True, TimeoutMsg (Finite 0), Tick 3 True] s1 = Inr s2 \<and>
         switch_requests s2 = switch_requests s1 \<and>
         current_controller_name s2 = ''position_joint_trajectory_controller''))"
proof -
  have h1: "default_configured torque_active"
    by (simp add: default_configured_def arbiter_examples)
  have h2: "box_cmd_timeout torque_active = Some 0"
    and h3: "box_timeout_length torque_active = Some (1/5)"
    and h5: "current_controller_name torque_active \<noteq> default_controller_name torque_active"
    and d: "default_controller_name torque_active = ''position_joint_trajectory_controller''"
    and r: "length (switch_requests torque_active) = 1"
    by (simp_all add: arbiter_examples)
  have h4: "(1::real) - 0 > 1/5" by simp
  have e: "\<not> list_ex is_command [Tick 2 True, TimeoutMsg (Finite 0), Tick 3 True]" by simp
  from watchdog_switches_once [OF h1 h2 h3 h4 h5, of example_codes nanoseconds]
  obtain s1 where t: "commandTimeoutCheck True 1 torque_active = Inr s1"
    and c: "current_controller_name s1 = default_controller_name torque_active"
    and q: "switch_requests s1 = switch_requests torque_active @
      [([default_controller_name torque_active],
        filter (\<lambda>n. n \<noteq> default_controller_name torque_active)
          (all_controllers torque_active))]"
    and later: "\<forall>es. \<not> list_ex is_command es \<longrightarrow>
       (\<exists>s2. arbiter_run example_codes nanoseconds es s1 = Inr s2 \<and>
          switch_requests s2 = switch_requests s1 \<and>
          current_controller_name s2 = default_controller_name torque_active)"
    by blast
  from later e obtain s2
    where "arbiter_run example_codes nanoseconds [Tick 2 True, TimeoutMsg (Finite 0), Tick 3 True] s1 = Inr s2"
      and "switch_requests s2 = switch_requests s1"
      and "current_controller_name s2 = default_controller_name torque_active"
    by blast
  moreover from q r have "length (switch_requests s1) = 2" by simp
  ultimately have "\<exists>s1. commandTimeoutCheck True 1 torque_active = Inr s1 \<and>
      current_controller_name s1 = ''position_joint_trajectory_controller'' \<and>
      length (switch_requests s1) = 2 \<and>
      (\<exists>s2. arbiter_run example_codes nanoseconds [Tick 2 True, TimeoutMsg (Finite 0), Tick 3 True] s1 = Inr s2 \<and>
         switch_requests s2 = switch_requests s1 \<and>
         current_controller_name s2 = ''position_joint_trajectory_controller'')"
    using t c d by auto
  with torque_active_reached h1 h2 h3 h4 h5 show ?thesis by blast
qed

text \<open>
  Claim C6 fails on the code. In both states a command time is stored, more than the
  timeout has elapsed at time 1 and the current controller is not the default. Where the
  default controller is none of the eight, the tick that the controller manager serves
  reads \<^verbatim>\<open>start_controllers[0]\<close> of an empty vector. Where two of the eight have the
  name of the default controller, the served tick reads \<^verbatim>\<open>stop_controllers[6]\<close> of a
  vector of six names.
\<close>

theorem watchdog_faults_without_single_default:
  "arbiter_run example_codes nanoseconds [CommandMsg 0 3 True] stray_arbiter
     = Inr stray_torque_active \<and>
   box_cmd_timeout stray_torque_active = Some 0 \<and>
   box_timeout_length stray_torque_active = Some (1/5) \<and>
   (1::real) - 0 > 1/5 \<and>
   current_controller_name stray_torque_active
     \<noteq> default_controller_name stray_torque_active \<and>
   commandTimeoutCheck True 1 stray_torque_active = Inl OutOfBounds \<and>
   arbiter_run example_codes nanoseconds [CommandMsg 0 3 True] twin_arbiter
     = Inr twin_torque_active \<and>
   default_defined (default_controller_name twin_torque_active)
     (all_controllers twin_torque_active) \<and>
   box_cmd_timeout twin_torque_active = Some 0 \<and>
   box_timeout_length twin_torque_active = Some (1/5) \<and>
   current_controller_name twin_torque_active
     \<noteq> default_controller_name twin_torque_active \<and>
   commandTimeoutCheck True 1 twin_torque_active = Inl OutOfBounds"
  by (simp add: arbiter_examples jointCommandCallback_def switchControllers_def
      switch_case_def vec_at_def log_controllers_def commandTimeoutCheck_def
      switchToDefaultController_def map_index_def)

section \<open>Properties of the watchdog before the first command\<close>

lemma commandTimeoutCheck_no_command:
  "box_cmd_timeout s = None \<Longrightarrow> commandTimeoutCheck switched now s = Inr s"
  by (simp add: commandTimeoutCheck_def)

lemma arbiter_run_no_command:
  assumes "box_cmd_timeout s = None" and "\<not> list_ex is_command es"
  shows "\<exists>t. arbiter_run c Duration es s = Inr (s\<lparr>box_timeout_length := t\<rparr>)"
  using assms
proof (induction es arbitrary: s)
  case Nil
  have "s = s\<lparr>box_timeout_length := box_timeout_length s\<rparr>" by simp
  then have "arbiter_run c Duration [] s = Inr (s\<lparr>box_timeout_length := box_timeout_length s\<rparr>)"
    by simp
  then show ?case by blast
next
  case (Cons e es)
  from Cons.prems(2) have rest: "\<not> list_ex is_command es" by simp
  show ?case
  proof (cases e)
    case (Tick now switched)
    with Cons.IH [OF Cons.prems(1) rest] Cons.prems(1) show ?thesis
      by (simp add: commandTimeoutCheck_no_command)
  next
    case (TimeoutMsg data)
    let ?s = "jointCommandTimeoutCallback Duration data s"
    have "box_cmd_timeout ?s = None"
      using Cons.prems(1) by (simp add: jointCommandTimeoutCallback_def)
    from Cons.IH [OF this rest] TimeoutMsg show ?thesis
      by (simp add: jointCommandTimeoutCallback_def)
  next
    case (CommandMsg now mode switched)
    with Cons.prems(2) show ?thesis by simp
  qed
qed

lemma switchControllers_cmd_time:
  "switchControllers c switched m s = Inr (ok, s') \<Longrightarrow> box_cmd_timeout s' = box_cmd_timeout s"
  by (auto simp: switchControllers_def vec_at_def log_controllers_def Let_def
      split: if_splits option.splits prod.splits sum.splits)

text \<open>
  Claim C9. \<open>init\<close> stores no command time. While none is stored, a tick leaves the state
  as it is, whatever the time and the current controller; a timeout message and a command
  that \<open>switchControllers\<close> rejects store none; and any sequence of ticks and timeout
  messages changes nothing but the timeout.
\<close>

theorem watchdog_idle_before_first_command:
  "box_cmd_timeout (arbiter_init c Duration p) = None \<and>
   (box_cmd_timeout s = None \<longrightarrow>
      commandTimeoutCheck switched now s = Inr s \<and>
      box_cmd_timeout (jointCommandTimeoutCallback Duration data s) = None \<and>
      (\<forall>s'. switchControllers c switched m s = Inr (False, s') \<longrightarrow>
         jointCommandCallback c switched now m s = Inr s' \<and> box_cmd_timeout s' = None) \<and>
      (\<forall>es. \<not> list_ex is_command es \<longrightarrow>
         (\<exists>t. arbiter_run c Duration es s = Inr (s\<lparr>box_timeout_length := t\<rparr>))))"
proof (intro conjI impI allI)
  show "box_cmd_timeout (arbiter_init c Duration p) = None"
    by (simp add: arbiter_init_def Let_def)
next
  assume "box_cmd_timeout s = None"
  then show "commandTimeoutCheck switched now s = Inr s"
    by (rule commandTimeoutCheck_no_command)
next
  assume "box_cmd_timeout s = None"
  then show "box_cmd_timeout (jointCommandTimeoutCallback Duration data s) = None"
    by (simp add: jointCommandTimeoutCallback_def)
next
  fix s'
  assume "box_cmd_timeout s = None" and "switchControllers c switched m s = Inr (False, s')"
  then show "jointCommandCallback c switched now m s = Inr s'"
    by (simp add: jointCommandCallback_def)
next
  fix s'
  assume "box_cmd_timeout s = None" and "switchControllers c switched m s = Inr (False, s')"
  then show "box_cmd_timeout s' = None"
    by (simp add: switchControllers_cmd_time)
next
  fix es
  assume "box_cmd_timeout s = None" and "\<not> list_ex is_command es"
  then show "\<exists>t. arbiter_run c Duration es s = Inr (s\<lparr>box_timeout_length := t\<rparr>)"
    by (rule arbiter_run_no_command)
qed

theorem watchdog_idle_before_first_command_witness:
  "box_cmd_timeout default_arbiter = None \<and>
   commandTimeoutCheck True 100 default_arbiter = Inr default_arbiter \<and>
   (\<exists>t. arbiter_run example_codes nanoseconds [Tick 5 True, TimeoutMsg (Finite 0), Tick 100 True] default_arbiter
      = Inr (default_arbiter\<lparr>box_timeout_length := t\<rparr>))"
proof -
  have e: "\<not> list_ex is_command [Tick 5 True, TimeoutMsg (Finite 0), Tick 100 True]" by simp
  note w = watchdog_idle_before_first_command
    [of example_codes nanoseconds no_params default_arbiter True 100]
  from w have n: "box_cmd_timeout default_arbiter = None"
    by (simp add: default_arbiter_def)
  with w have "commandTimeoutCheck True 100 default_arbiter = Inr default_arbiter"
    by blast
  moreover from w n e
  have "\<exists>t. arbiter_run example_codes nanoseconds [Tick 5 True, TimeoutMsg (Finite 0), Tick 100 True] default_arbiter
      = Inr (default_arbiter\<lparr>box_timeout_length := t\<rparr>)"
    by blast
  ultimately show ?thesis using n by blast
qed

section \<open>A default controller that is not configured\<close>

text \<open>
  Claim C2 fails on the code. With a default controller that is none of the eight, after a
  torque command at time 0, the tick at time 1 that the controller manager serves reads
  \<^verbatim>\<open>start_controllers[0]\<close> of an empty vector.
\<close>

theorem stray_default_faults:
  "\<not> default_defined (default_controller_name stray_arbiter) (all_controllers stray_arbiter) \<and>
   arbiter_run example_codes nanoseconds [CommandMsg 0 3 True, Tick 1 True] stray_arbiter
     = Inl OutOfBounds"
  by (simp add: arbiter_examples jointCommandCallback_def switchControllers_def
      switch_case_def vec_at_def log_controllers_def commandTimeoutCheck_def
      switchToDefaultController_def)

end
